theory Spec2Isabelle
  imports Complex_Main
begin

section \<open>Data model (Patient.model.ts)\<close>

text \<open>
  Dates are JavaScript \<open>Date\<close> values, modelled by their time value: an integer number
  of milliseconds since the epoch (\<open>getTime()\<close>). An optional field of an interface
  (\<open>notes?: string\<close>) is an \<open>option\<close>. The route handlers guard \<open>patient.consent\<close>
  and \<open>patient.interactions\<close> against being absent (\<open>|| {...}\<close>, \<open>|| []\<close>), so
  both are options in the document as well. \<open>pid\<close> is the document's \<open>_id\<close>;
  \<open>createdAt\<close> and \<open>docUpdatedAt\<close> are the schema's \<open>timestamps: true\<close>
  (the document's own \<open>updatedAt\<close>, renamed apart from the consent's), absent until
  the first save.

  A string is modelled by its UTF-8 encoding, so a character outside ASCII is the two to
  four bytes UTF-8 gives it. What the code does with strings (concatenation, equality,
  the digit filter, \<open>startsWith('+')\<close>, \<open>substring(1)\<close> after a \<open>+\<close>, \<open>trim\<close>) is the same
  on the encoding as on the string.
\<close>

type_synonym date = int

record vaccine =
  name :: string
  date :: date
  time :: string
  location :: string
  vnotes :: "string option"
  lotNumber :: "string option"
  nextDoseDate :: "date option"
  administered :: bool

datatype interaction_type = REMINDER_SENT | CONFIRMATION | RESCHEDULE | INQUIRY | OFFER

datatype interaction_status = SENT | DELIVERED | READ | FAILED

record interaction =
  itype :: interaction_type
  timestamp :: "date option"
  message :: "string option"
  response :: "string option"
  messageId :: "string option"
  status :: "interaction_status option"
  metadata :: "string option"

record consent =
  marketing :: bool
  reminders :: bool
  privacy :: bool
  givenAt :: date
  updatedAt :: date

record preferences =
  language :: string
  contactTime :: string

record patient =
  pid :: nat
  fullName :: string
  phone :: string
  email :: "string option"
  petName :: string
  petType :: string
  petBreed :: "string option"
  petAge :: "real option"
  petWeight :: "real option"
  nextVaccine :: "vaccine option"
  vaccineHistory :: "vaccine list"
  consent :: "consent option"
  lastInteraction :: "date option"
  interactions :: "interaction list option"
  preferences :: preferences
  createdAt :: "date option"
  docUpdatedAt :: "date option"

section \<open>Eligibility predicates (schema methods)\<close>

text \<open>
  A property read on an absent \<open>consent\<close> throws a \<open>TypeError\<close>; the methods read
  \<open>this.consent.reminders\<close> and \<open>this.consent.marketing\<close> without a guard.
\<close>

datatype exn = TypeError

definition msPerDay :: int where
  "msPerDay = 1000 * 60 * 60 * 24"

text \<open>
  \<open>Math.ceil((vaccineDate.getTime() - today.getTime()) / (1000 * 60 * 60 * 24))\<close>,
  the quotient taken exactly: for dates within thousands of years of each other the
  source's double division rounds by far less than the \<open>1 / 86400000\<close> that separates
  a quotient from the nearest whole number of days, so its ceiling is the exact one.
  \<open>Math.ceil\<close> may give \<open>-0\<close>, which compares as \<open>0\<close>.
\<close>

definition diffDays :: "date \<Rightarrow> date \<Rightarrow> int" where
  "diffDays vaccineDate today = \<lceil>real_of_int (vaccineDate - today) / real_of_int msPerDay\<rceil>"

text \<open>\<open>needsReminder(daysBefore)\<close>; \<open>today\<close> is the value of \<open>new Date()\<close>.\<close>

definition needsReminder :: "patient \<Rightarrow> int \<Rightarrow> date \<Rightarrow> exn + bool" where
  "needsReminder this daysBefore today =
     (case nextVaccine this of
        None \<Rightarrow> Inr False
      | Some v \<Rightarrow>
          (case consent this of
             None \<Rightarrow> Inl TypeError
           | Some c \<Rightarrow>
               if \<not> reminders c then Inr False
               else Inr (diffDays (date v) today \<le> daysBefore \<and> diffDays (date v) today \<ge> 0)))"

text \<open>The parameter's default: \<open>daysBefore: number = 3\<close>.\<close>

definition needsReminderDefault :: "patient \<Rightarrow> date \<Rightarrow> exn + bool" where
  "needsReminderDefault this today = needsReminder this 3 today"

text \<open>\<open>canReceiveOffers()\<close>; \<open>now\<close> is the value of \<open>Date.now()\<close>.\<close>

definition canReceiveOffers :: "patient \<Rightarrow> date \<Rightarrow> exn + bool" where
  "canReceiveOffers this now =
     (case consent this of
        None \<Rightarrow> Inl TypeError
      | Some c \<Rightarrow>
          if \<not> marketing c then Inr False
          else (case lastInteraction this of
                  None \<Rightarrow> Inr False
                | Some li \<Rightarrow>
                    (let twentyFourHoursAgo = now - 24 * 60 * 60 * 1000
                     in Inr (li \<ge> twentyFourHoursAgo))))"

section \<open>Messaging gateway (WhatsAppClient.ts)\<close>

definition isDigit :: "char \<Rightarrow> bool" where
  "isDigit c = (c \<in> set ''0123456789'')"

text \<open>\<open>phone.replace(/\D/g, '')\<close>: every character that is not a digit is removed.\<close>

fun replaceNonDigits :: "string \<Rightarrow> string" where
  "replaceNonDigits [] = []"
| "replaceNonDigits (c # cs) = (if isDigit c then c # replaceNonDigits cs else replaceNonDigits cs)"

definition formatPhoneNumber :: "string \<Rightarrow> string" where
  "formatPhoneNumber ph =
     (let cleanPhone = replaceNonDigits ph in
      if length cleanPhone = 10 then ''52'' @ cleanPhone
      else if take 1 ph = ''+'' then drop 1 ph
      else cleanPhone)"

text \<open>
  The provider's structured error (\<open>WhatsAppErrorResponse.error\<close>) and the error
  object axios rejects with: \<open>error_message\<close> is \<open>(error as Error).message\<close>, the
  transport's own text, and \<open>response_error\<close> is \<open>error.response?.data?.error\<close>,
  absent when the provider sent no structured body (a timeout, a network failure).
\<close>

record provider_error =
  err_message :: string
  err_type :: string
  err_code :: int
  err_details :: "string option"
  fbtrace_id :: string

record axios_error =
  error_message :: string
  response_error :: "provider_error option"

record whatsapp_response =
  messaging_product :: string
  contacts :: "(string \<times> string) list"
  messages :: "string list"

record component =
  ctype :: string
  parameters :: "string list"

record template =
  tname :: string
  languageCode :: string
  components :: "component list option"

datatype content = Text string bool | Template template

record whatsapp_message =
  to :: string
  content :: content

datatype log_entry = ConsoleLog string | ConsoleWarn string | ConsoleError string

text \<open>
  What a handler depends on and does not compute itself: the environment variables, the
  provider behind \<open>client.post('/messages', ...)\<close>, the locale's date formatter
  (\<open>toLocaleDateString('es-MX', ...)\<close>), the parser of \<open>new Date(string)\<close> (\<open>None\<close>
  for an Invalid Date), the runtime's case mapping (\<open>String.prototype.toLowerCase\<close>),
  and the persistence layer:
  \<^item> \<open>castObjectId\<close> is the cast \<open>findById\<close> makes of the route's \<open>:id\<close> string:
    \<open>Inr\<close> of the identifier the string denotes, or \<open>Inl\<close> of the message of the
    \<open>CastError\<close> it rejects with when the string denotes none (such as \<open>abc\<close>);
  \<^item> \<open>storeRejects\<close> is the layer's verdict on a document it is asked to write, other
    than the unique index on \<open>phone\<close>: the message of the error \<open>save()\<close> rejects with
    (schema validation, a lost connection);
  \<^item> \<open>castErrorMessage\<close> is that message when the document holds an Invalid Date.
\<close>

record deps =
  WHATSAPP_PHONE_NUMBER_ID :: "string option"
  WHATSAPP_ACCESS_TOKEN :: "string option"
  CLINIC_NAME :: "string option"
  post :: "whatsapp_message \<Rightarrow> axios_error + whatsapp_response"
  toLocaleDateString :: "date \<Rightarrow> string"
  newDate :: "string \<Rightarrow> date option"
  toLowerCase :: "string \<Rightarrow> string"
  castObjectId :: "string \<Rightarrow> string + nat"
  storeRejects :: "patient \<Rightarrow> string option"
  castErrorMessage :: string

text \<open>
  The state a request runs in: the stored documents (oldest first), the requests posted
  to the provider so far, the console, and whether the module-level \<open>whatsappClient\<close>
  has been constructed.
\<close>

record world =
  patients :: "patient list"
  outbox :: "whatsapp_message list"
  console :: "log_entry list"
  whatsappClient :: bool

definition logTo :: "log_entry \<Rightarrow> world \<Rightarrow> world" where
  "logTo e w = w\<lparr>console := console w @ [e]\<rparr>"

text \<open>
  The marks the log lines start with (a check mark, a cross, a warning sign), in UTF-8.
  Where the source logs an error object, the entry holds its message.
\<close>

definition okMark :: string where
  "okMark = [CHR 0xE2, CHR 0x9C, CHR 0x85] @ '' ''"

definition errMark :: string where
  "errMark = [CHR 0xE2, CHR 0x9D, CHR 0x8C] @ '' ''"


text \<open>\<open>a || b\<close> on strings that may be absent: the empty string is falsy.\<close>

definition truthy :: "string option \<Rightarrow> bool" where
  "truthy s = (case s of None \<Rightarrow> False | Some [] \<Rightarrow> False | Some (c # cs) \<Rightarrow> True)"

definition orElse :: "string option \<Rightarrow> string \<Rightarrow> string" where
  "orElse s dflt = (case s of None \<Rightarrow> dflt | Some [] \<Rightarrow> dflt | Some (c # cs) \<Rightarrow> c # cs)"

text \<open>\<open>axiosError.response?.data?.error?.message || (error as Error).message\<close>\<close>

definition errorText :: "axios_error \<Rightarrow> string" where
  "errorText e = orElse (map_option err_message (response_error e)) (error_message e)"

text \<open>The constructor throws when a credential is missing or empty.\<close>

definition newWhatsAppClient :: "deps \<Rightarrow> string + unit" where
  "newWhatsAppClient d =
     (if orElse (WHATSAPP_PHONE_NUMBER_ID d) [] = [] \<or> orElse (WHATSAPP_ACCESS_TOKEN d) [] = []
      then Inl ''WhatsApp credentials not configured. Run: npm run setup''
      else Inr ())"


definition sendTemplate :: "deps \<Rightarrow> string \<Rightarrow> string \<Rightarrow> string list \<Rightarrow> world \<Rightarrow> (axios_error + whatsapp_response) \<times> world" where
  "sendTemplate d recipient templateName params w =
     (let tpl = \<lparr>tname = templateName, languageCode = ''es'',
                 components = (if length params > 0
                               then Some [\<lparr>ctype = ''body'', parameters = params\<rparr>]
                               else None)\<rparr>;
          req = \<lparr>to = formatPhoneNumber recipient, content = Template tpl\<rparr>;
          w1 = w\<lparr>outbox := outbox w @ [req]\<rparr>
      in case post d req of
           Inr resp \<Rightarrow>
             (Inr resp, logTo (ConsoleLog (okMark @ ''Plantilla '' @ [CHR 0x22] @ templateName @ [CHR 0x22] @ '' enviada a '' @ recipient)) w1)
         | Inl e \<Rightarrow> (Inl e, logTo (ConsoleError (errMark @ ''Error enviando plantilla: '' @ errorText e)) w1))"

section \<open>Patient record store (the schema's setters, defaults and unique index)\<close>

text \<open>
  \<open>trim: true\<close> is a setter applied when a field is assigned: \<open>String.prototype.trim\<close>,
  which removes from both ends the white space and line terminators of ECMAScript:
  U+0009 to U+000D, U+0020, U+00A0, U+1680, U+2000 to U+200A, U+2028, U+2029, U+202F,
  U+205F, U+3000 and U+FEFF, here each in its UTF-8 encoding.
\<close>

definition whiteSpace :: "string list" where
  "whiteSpace =
     [[CHR 0x09], [CHR 0x0A], [CHR 0x0B], [CHR 0x0C], [CHR 0x0D], [CHR 0x20],
      [CHR 0xC2, CHR 0xA0], [CHR 0xE1, CHR 0x9A, CHR 0x80],
      [CHR 0xE2, CHR 0x80, CHR 0x80], [CHR 0xE2, CHR 0x80, CHR 0x81], [CHR 0xE2, CHR 0x80, CHR 0x82],
      [CHR 0xE2, CHR 0x80, CHR 0x83], [CHR 0xE2, CHR 0x80, CHR 0x84], [CHR 0xE2, CHR 0x80, CHR 0x85],
      [CHR 0xE2, CHR 0x80, CHR 0x86], [CHR 0xE2, CHR 0x80, CHR 0x87], [CHR 0xE2, CHR 0x80, CHR 0x88],
      [CHR 0xE2, CHR 0x80, CHR 0x89], [CHR 0xE2, CHR 0x80, CHR 0x8A],
      [CHR 0xE2, CHR 0x80, CHR 0xA8], [CHR 0xE2, CHR 0x80, CHR 0xA9], [CHR 0xE2, CHR 0x80, CHR 0xAF],
      [CHR 0xE2, CHR 0x81, CHR 0x9F], [CHR 0xE3, CHR 0x80, CHR 0x80], [CHR 0xEF, CHR 0xBB, CHR 0xBF]]"

text \<open>Removing, from the front of \<open>s\<close>, every leading occurrence of one of \<open>seqs\<close>.\<close>

function stripLeading :: "string list \<Rightarrow> string \<Rightarrow> string" where
  "stripLeading seqs s =
     (case find (\<lambda>q. q \<noteq> [] \<and> take (length q) s = q) seqs of
        None \<Rightarrow> s
      | Some q \<Rightarrow> stripLeading seqs (drop (length q) s))"
  by pat_completeness auto
termination
proof (relation "measure (\<lambda>(seqs, s). length s)")
  show "wf (measure (\<lambda>(seqs, s). length s))" by simp
next
  fix seqs :: "string list" and s q :: string
  assume "find (\<lambda>q. q \<noteq> [] \<and> take (length q) s = q) seqs = Some q"
  then have q: "q \<noteq> []" "take (length q) s = q" by (auto simp: find_Some_iff)
  from arg_cong[OF q(2), of length] have "length q \<le> length s" by simp
  with q(1) show "((seqs, drop (length q) s), (seqs, s)) \<in> measure (\<lambda>(seqs, s). length s)"
    by (cases q) auto
qed

declare stripLeading.simps [simp del]

definition trim :: "string \<Rightarrow> string" where
  "trim s = rev (stripLeading (map rev whiteSpace) (rev (stripLeading whiteSpace s)))"

text \<open>
  \<open>findOne\<close> is the query by \<open>_id\<close>; \<open>findById\<close> first casts the route's string, and
  rejects with the cast's error when the string denotes no identifier.
\<close>

definition findOne :: "nat \<Rightarrow> patient list \<Rightarrow> patient option" where
  "findOne oid ps = find (\<lambda>p. pid p = oid) ps"

definition findById :: "deps \<Rightarrow> string \<Rightarrow> patient list \<Rightarrow> string + patient option" where
  "findById d i ps =
     (case castObjectId d i of
        Inl m \<Rightarrow> Inl m
      | Inr oid \<Rightarrow> Inr (findOne oid ps))"

text \<open>A new document's \<open>_id\<close> is fresh: no stored document has it.\<close>

definition newObjectId :: "patient list \<Rightarrow> nat" where
  "newObjectId ps = Suc (fold max (map pid ps) 0)"

text \<open>
  What \<open>save()\<close> rejects with. \<open>DuplicateKey\<close> is the driver's error of code 11000,
  raised by the unique index on \<open>phone\<close>.
\<close>

datatype mongo_error = DuplicateKey | OtherError string

definition mongoMessage :: "mongo_error \<Rightarrow> string" where
  "mongoMessage e = (case e of DuplicateKey \<Rightarrow> ''E11000 duplicate key error'' | OtherError m \<Rightarrow> m)"


definition saveExisting :: "deps \<Rightarrow> date \<Rightarrow> patient \<Rightarrow> patient list \<Rightarrow> mongo_error + patient list" where
  "saveExisting d tSave doc ps =
     (case storeRejects d doc of
        Some m \<Rightarrow> Inl (OtherError m)
      | None \<Rightarrow> Inr (map (\<lambda>q. if pid q = pid doc then doc\<lparr>docUpdatedAt := Some tSave\<rparr> else q) ps))"

text \<open>
  \<open>new Patient({...})\<close>: the setters (\<open>trim\<close>, and \<open>lowercase\<close> on the email, where
  the order of the two makes no difference to the result) and the defaults of
  \<open>patientSchema\<close>. The default consent reads the clock twice
  (\<open>tGiven\<close>, \<open>tUpdated\<close>). A field of a request body
  is a JSON string, or absent; a flag of a consent update is a JSON boolean, or absent.
\<close>

definition defaultConsent :: "date \<Rightarrow> date \<Rightarrow> consent" where
  "defaultConsent tGiven tUpdated =
     \<lparr>marketing = False, reminders = True, privacy = True, givenAt = tGiven, updatedAt = tUpdated\<rparr>"



section \<open>Reminder engine (patient.routes.ts)\<close>

text \<open>
  A handler's answer is \<open>Inr\<close> of the \<open>data\<close> of its success response, or \<open>Inl\<close> of
  the failure, named as the specification names it:
  \<^item> \<open>ValidationError\<close>: status 400, \<^verbatim>\<open>Faltan campos requeridos: ...\<close>;
  \<^item> \<open>DuplicatePhoneError\<close>: status 400, \<^verbatim>\<open>Ya existe un paciente con este numero de telefono\<close>;
  \<^item> \<open>NotFoundError\<close>: status 404, \<^verbatim>\<open>Paciente no encontrado\<close>;
  \<^item> \<open>NoScheduledVaccineError\<close>: status 400, \<^verbatim>\<open>El paciente no tiene vacuna programada\<close>;
  \<^item> \<open>ConsentDeniedError\<close>: status 400, \<^verbatim>\<open>El paciente no ha dado consentimiento para recordatorios\<close>;
  \<^item> \<open>ServerError s\<close>: status 500 with \<open>s\<close> as the response's \<open>error\<close> string, the
    answer of a handler's \<open>catch\<close>.

  A handler reads the clock with \<open>new Date()\<close>; \<open>clock k\<close> is the value of the
  \<open>k\<close>-th read (from 0) made while the request is handled, the save's timestamp last.
  The \<open>:id\<close> of a route is a string.
\<close>

datatype error =
    ValidationError
  | DuplicatePhoneError
  | NotFoundError
  | NoScheduledVaccineError
  | ConsentDeniedError
  | ServerError string

text \<open>\<open>process.env.CLINIC_NAME\<close> or else the default name, its accented letter in UTF-8.\<close>

definition clinicName :: "deps \<Rightarrow> string" where
  "clinicName d = orElse (CLINIC_NAME d) (''Nuestra Cl'' @ [CHR 0xC3, CHR 0xAD] @ ''nica'')"


text \<open>\<open>if (!whatsappClient) { whatsappClient = new WhatsAppClient(); }\<close>\<close>

definition ensureClient :: "deps \<Rightarrow> world \<Rightarrow> string + world" where
  "ensureClient d w =
     (if whatsappClient w then Inr w
      else (case newWhatsAppClient d of
              Inl m \<Rightarrow> Inl m
            | Inr u \<Rightarrow>
                Inr (logTo (ConsoleLog (okMark @ ''WhatsApp Client inicializado'')) (w\<lparr>whatsappClient := True\<rparr>))))"



record vaccine_body =
  req_name :: "string option"
  req_date :: "string option"
  req_time :: "string option"
  req_location :: "string option"
  req_notes :: "string option"
  req_lotNumber :: "string option"

text \<open>
  \<open>router.post('/:id/vaccine')\<close>; the success data is \<open>(vaccine, patientName, petName)\<close>.
  The required fields are checked before the patient is looked up. The assigned object
  is cast to the vaccine schema (\<open>name\<close> is trimmed); an Invalid Date fails that cast
  when the document is saved. Whatever \<open>findById\<close> or \<open>save\<close> rejects with ends in the
  \<open>catch\<close>.
\<close>

definition scheduleVaccine ::
  "deps \<Rightarrow> (nat \<Rightarrow> date) \<Rightarrow> string \<Rightarrow> vaccine_body \<Rightarrow> world \<Rightarrow> (error + vaccine \<times> string \<times> string) \<times> world" where
  "scheduleVaccine d clock i body w =
     (if \<not> truthy (req_name body) \<or> \<not> truthy (req_date body)
         \<or> \<not> truthy (req_time body) \<or> \<not> truthy (req_location body)
      then (Inl ValidationError, w)
      else
        (let failed = (\<lambda>m. (Inl (ServerError (''Error al programar vacuna: '' @ m)),
                            logTo (ConsoleError (errMark @ ''Error programando vacuna: '' @ m)) w)) in
         case findById d i (patients w) of
           Inl m \<Rightarrow> failed m
         | Inr None \<Rightarrow> (Inl NotFoundError, w)
         | Inr (Some p) \<Rightarrow>
             (case newDate d (orElse (req_date body) []) of
                None \<Rightarrow> failed (castErrorMessage d)
              | Some t \<Rightarrow>
                  (let v = \<lparr>name = trim (orElse (req_name body) []),
                            date = t,
                            time = orElse (req_time body) [],
                            location = orElse (req_location body) [],
                            vnotes = req_notes body,
                            lotNumber = req_lotNumber body,
                            nextDoseDate = None,
                            administered = False\<rparr>;
                       p' = p\<lparr>nextVaccine := Some v\<rparr>
                   in case saveExisting d (clock 0) p' (patients w) of
                        Inl e \<Rightarrow> failed (mongoMessage e)
                      | Inr ps \<Rightarrow> (Inr (v, fullName p', petName p'), w\<lparr>patients := ps\<rparr>)))))"

text \<open>The middleware \<open>initWhatsApp\<close>, which runs before the reminder's handler.\<close>

definition initWhatsApp :: "deps \<Rightarrow> world \<Rightarrow> error + world" where
  "initWhatsApp d w =
     (case ensureClient d w of
        Inl m \<Rightarrow> Inl (ServerError (''Error inicializando WhatsApp: '' @ m))
      | Inr w0 \<Rightarrow> Inr w0)"

text \<open>\<open>response.messages[0]?.id\<close>\<close>

definition firstMessageId :: "whatsapp_response \<Rightarrow> string option" where
  "firstMessageId resp = (case messages resp of [] \<Rightarrow> None | m # ms \<Rightarrow> Some m)"

text \<open>
  The handler of \<open>router.post('/:id/reminder')\<close>; the success data is
  \<open>(messageId, patientName, vaccineName)\<close>. \<open>clock 0\<close> is the interaction's
  \<open>timestamp: new Date()\<close>, \<open>clock 1\<close> the later \<open>patient.lastInteraction = new Date()\<close>.
  Its \<open>catch\<close> answers with the provider's message or else the error's own.
\<close>

definition sendReminder ::
  "deps \<Rightarrow> (nat \<Rightarrow> date) \<Rightarrow> string \<Rightarrow> world \<Rightarrow> (error + string option \<times> string \<times> string) \<times> world" where
  "sendReminder d clock i w =
     (case findById d i (patients w) of
        Inl m \<Rightarrow>
          (Inl (ServerError m), logTo (ConsoleError (errMark @ ''Error enviando recordatorio: '' @ m)) w)
      | Inr None \<Rightarrow> (Inl NotFoundError, w)
      | Inr (Some p) \<Rightarrow>
          (case nextVaccine p of
             None \<Rightarrow> (Inl NoScheduledVaccineError, w)
           | Some v \<Rightarrow>
               if \<not> (case consent p of None \<Rightarrow> True | Some c \<Rightarrow> reminders c)
               then (Inl ConsentDeniedError, w)
               else
                 (let formattedDate = toLocaleDateString d (date v) in
                  case sendTemplate d (phone p) ''recordatorio_vacuna''
                         [fullName p, petName p, name v, formattedDate, time v, location v, clinicName d] w of
                    (Inl e, w1) \<Rightarrow>
                      (Inl (ServerError (errorText e)),
                       logTo (ConsoleError (errMark @ ''Error enviando recordatorio: '' @ error_message e)) w1)
                  | (Inr resp, w1) \<Rightarrow>
                      (let newInteraction =
                             \<lparr>itype = REMINDER_SENT,
                              timestamp = Some (clock 0),
                              message = Some (''Recordatorio de vacuna: '' @ name v),
                              response = None,
                              messageId = firstMessageId resp,
                              status = Some SENT,
                              metadata = None\<rparr>;
                           its = (case interactions p of None \<Rightarrow> [] | Some xs \<Rightarrow> xs) @ [newInteraction];
                           p' = p\<lparr>interactions := Some its, lastInteraction := Some (clock 1)\<rparr>
                       in case saveExisting d (clock 2) p' (patients w1) of
                            Inl e \<Rightarrow>
                              (Inl (ServerError (mongoMessage e)),
                               logTo (ConsoleError (errMark @ ''Error enviando recordatorio: '' @ mongoMessage e)) w1)
                          | Inr ps \<Rightarrow>
                              (Inr (firstMessageId resp, fullName p', name v), w1\<lparr>patients := ps\<rparr>)))))"

text \<open>The route: the middleware, then the handler.\<close>

definition reminderRoute ::
  "deps \<Rightarrow> (nat \<Rightarrow> date) \<Rightarrow> string \<Rightarrow> world \<Rightarrow> (error + string option \<times> string \<times> string) \<times> world" where
  "reminderRoute d clock i w =
     (case initWhatsApp d w of
        Inl e \<Rightarrow> (Inl e, w)
      | Inr w0 \<Rightarrow> sendReminder d clock i w0)"

record consent_body =
  req_marketing :: "bool option"
  req_reminders :: "bool option"
  req_privacy :: "bool option"

text \<open>
  \<open>router.put('/:id/consent')\<close>; the success data is the new consent. The default
  object is built, and the clock read for it, only when the patient has no consent.
\<close>

definition updateConsent ::
  "deps \<Rightarrow> (nat \<Rightarrow> date) \<Rightarrow> string \<Rightarrow> consent_body \<Rightarrow> world \<Rightarrow> (error + consent) \<times> world" where
  "updateConsent d clock i body w =
     (let failed = (\<lambda>m. (Inl (ServerError (''Error al actualizar consentimiento: '' @ m)),
                         logTo (ConsoleError (errMark @ ''Error actualizando consentimiento: '' @ m)) w)) in
      case findById d i (patients w) of
        Inl m \<Rightarrow> failed m
      | Inr None \<Rightarrow> (Inl NotFoundError, w)
      | Inr (Some p) \<Rightarrow>
          (let (currentConsent, k) =
                 (case consent p of
                    Some c \<Rightarrow> (c, 0)
                  | None \<Rightarrow> (defaultConsent (clock 0) (clock 1), 2));
               newConsent =
                 \<lparr>marketing = (case req_marketing body of Some b \<Rightarrow> b | None \<Rightarrow> marketing currentConsent),
                  reminders = (case req_reminders body of Some b \<Rightarrow> b | None \<Rightarrow> reminders currentConsent),
                  privacy = (case req_privacy body of Some b \<Rightarrow> b | None \<Rightarrow> privacy currentConsent),
                  givenAt = givenAt currentConsent,
                  updatedAt = clock k\<rparr>;
               p' = p\<lparr>consent := Some newConsent\<rparr>
           in case saveExisting d (clock (k + 1)) p' (patients w) of
                Inl e \<Rightarrow> failed (mongoMessage e)
              | Inr ps \<Rightarrow> (Inr newConsent, w\<lparr>patients := ps\<rparr>)))"

section \<open>The specification's words\<close>

text \<open>
  "Today" with date-only precision: midnight (UTC) of the day the instant \<open>t\<close> lies in.
  A vaccine dated \<open>k\<close> days from today is dated \<open>startOfDay t + k * msPerDay\<close>.
\<close>

definition startOfDay :: "date \<Rightarrow> date" where
  "startOfDay t = t - t mod msPerDay"

text \<open>
  The phone normalization as section 4.2 words it, for a default country code \<open>cc\<close>:
  strip non-digits; exactly 10 digits get the country code; an input that began with
  \<open>+\<close> loses only that character; otherwise the digits pass through.
\<close>

definition normalizePhoneSpec :: "string \<Rightarrow> string \<Rightarrow> string" where
  "normalizePhoneSpec cc ph =
     (let digits = filter isDigit ph in
      if length digits = 10 then cc @ digits
      else (case ph of
              [] \<Rightarrow> digits
            | c # rest \<Rightarrow> if c = CHR ''+'' then rest else digits))"

text \<open>
  The stored patient an \<open>:id\<close> denotes, if it denotes one, and that patient's
  interactions (none when the patient or the list is absent).
\<close>

definition storedPatient :: "deps \<Rightarrow> string \<Rightarrow> world \<Rightarrow> patient option" where
  "storedPatient d i w =
     (case findById d i (patients w) of
        Inl m \<Rightarrow> None
      | Inr found \<Rightarrow> found)"

definition interactionsOf :: "deps \<Rightarrow> string \<Rightarrow> world \<Rightarrow> interaction list" where
  "interactionsOf d i w =
     (case storedPatient d i w of
        None \<Rightarrow> []
      | Some p \<Rightarrow> (case interactions p of None \<Rightarrow> [] | Some xs \<Rightarrow> xs))"

text \<open>
  The template request of a reminder as section 4.1 words it: the template
  \<open>recordatorio_vacuna\<close> to the patient's normalized phone, with the ordered parameters
  full name, pet name, vaccine name, formatted date, time, location, clinic name.
\<close>

definition reminderRequest :: "deps \<Rightarrow> patient \<Rightarrow> vaccine \<Rightarrow> whatsapp_message" where
  "reminderRequest d p v =
     \<lparr>to = formatPhoneNumber (phone p),
      content = Template
        \<lparr>tname = ''recordatorio_vacuna'', languageCode = ''es'',
         components = Some [\<lparr>ctype = ''body'',
           parameters = [fullName p, petName p, name v, toLocaleDateString d (date v),
                         time v, location v, clinicName d]\<rparr>]\<rparr>\<rparr>"

text \<open>
  The consent merge as section 4.1 words it: only the fields present in the partial
  update change, \<open>updatedAt\<close> is refreshed, everything else (so \<open>givenAt\<close>) is kept.
\<close>

definition mergeConsentSpec :: "consent \<Rightarrow> consent_body \<Rightarrow> date \<Rightarrow> consent" where
  "mergeConsentSpec cur body t =
     (let c1 = (case req_marketing body of None \<Rightarrow> cur | Some b \<Rightarrow> cur\<lparr>marketing := b\<rparr>);
          c2 = (case req_reminders body of None \<Rightarrow> c1 | Some b \<Rightarrow> c1\<lparr>reminders := b\<rparr>);
          c3 = (case req_privacy body of None \<Rightarrow> c2 | Some b \<Rightarrow> c2\<lparr>privacy := b\<rparr>)
      in c3\<lparr>updatedAt := t\<rparr>)"


definition vaccineFieldsPresent :: "vaccine_body \<Rightarrow> bool" where
  "vaccineFieldsPresent body =
     (truthy (req_name body) \<and> truthy (req_date body)
      \<and> truthy (req_time body) \<and> truthy (req_location body))"

text \<open>
  Reminders are allowed: the consent record is absent (the default) or its
  \<open>reminders\<close> flag is true.
\<close>

definition remindersAllowed :: "patient \<Rightarrow> bool" where
  "remindersAllowed p = (case consent p of None \<Rightarrow> True | Some c \<Rightarrow> reminders c)"

text \<open>
  The interaction record of a reminder sent for vaccine \<open>v\<close> at time \<open>t\<close>, the provider
  having answered \<open>resp\<close>; and the patient with a record appended and
  \<open>lastInteraction\<close> set.
\<close>

definition reminderRecord :: "vaccine \<Rightarrow> whatsapp_response \<Rightarrow> date \<Rightarrow> interaction" where
  "reminderRecord v resp t =
     \<lparr>itype = REMINDER_SENT, timestamp = Some t,
      message = Some (''Recordatorio de vacuna: '' @ name v), response = None,
      messageId = (case messages resp of [] \<Rightarrow> None | m # ms \<Rightarrow> Some m),
      status = Some SENT, metadata = None\<rparr>"

definition withReminder :: "patient \<Rightarrow> interaction \<Rightarrow> date \<Rightarrow> patient" where
  "withReminder p x t =
     p\<lparr>interactions := Some ((case interactions p of None \<Rightarrow> [] | Some xs \<Rightarrow> xs) @ [x]),
       lastInteraction := Some t\<rparr>"

text \<open>
  The gateway client is available: already constructed, or the credentials are there
  to construct it.
\<close>

definition clientAvailable :: "deps \<Rightarrow> world \<Rightarrow> bool" where
  "clientAvailable d w = (whatsappClient w \<or> newWhatsAppClient d = Inr ())"



section \<open>Sample data\<close>

definition sampleVaccine :: vaccine where
  "sampleVaccine =
     \<lparr>name = ''Rabia'', date = 10 * msPerDay, time = ''10:30'', location = ''Sala 2'',
      vnotes = Some ''ayuno'', lotNumber = Some ''L-77'', nextDoseDate = Some (375 * msPerDay),
      administered = True\<rparr>"

definition samplePatient :: patient where
  "samplePatient =
     \<lparr>pid = 1, fullName = ''Ana Ruiz'', phone = ''5512345678'', email = None,
      petName = ''Rex'', petType = ''DOG'', petBreed = None, petAge = None, petWeight = None,
      nextVaccine = Some sampleVaccine, vaccineHistory = [],
      consent = Some (defaultConsent 0 0), lastInteraction = None, interactions = Some [],
      preferences = \<lparr>language = ''es'', contactTime = ''ANY''\<rparr>,
      createdAt = Some 0, docUpdatedAt = Some 0\<rparr>"

definition sampleWorld :: world where
  "sampleWorld = \<lparr>patients = [samplePatient], outbox = [], console = [], whatsappClient = True\<rparr>"

text \<open>
  Two well-formed identifiers: \<open>anaId\<close> is the sample patient's, \<open>strayId\<close> is nobody's.
  The sample cast knows these two and rejects every other string.
\<close>

definition anaId :: string where
  "anaId = ''64b7f0c2a1d3e4f5a6b7c8d1''"

definition strayId :: string where
  "strayId = ''64b7f0c2a1d3e4f5a6b7c8d2''"

definition sampleCast :: "string \<Rightarrow> string + nat" where
  "sampleCast s =
     (if s = anaId then Inr 1
      else if s = strayId then Inr 2
      else Inl (''Cast to ObjectId failed for value '' @ [CHR 0x22] @ s @ [CHR 0x22]))"

text \<open>The case mapping on ASCII letters, enough for the sample strings.\<close>

definition asciiLower :: "string \<Rightarrow> string" where
  "asciiLower s =
     map (\<lambda>c. let n = (of_char c :: nat) in if 65 \<le> n \<and> n \<le> 90 then char_of (n + 32) else c) s"

text \<open>A provider that accepts every message and one that rejects every message.\<close>

definition acceptingDeps :: "string list \<Rightarrow> deps" where
  "acceptingDeps ids =
     \<lparr>WHATSAPP_PHONE_NUMBER_ID = Some ''1055'', WHATSAPP_ACCESS_TOKEN = Some ''token'',
      CLINIC_NAME = Some ''Vet Sur'',
      post = (\<lambda>m. Inr \<lparr>messaging_product = ''whatsapp'', contacts = [], messages = ids\<rparr>),
      toLocaleDateString = (\<lambda>t. ''fecha''),
      newDate = (\<lambda>s. if s = ''1970-01-21'' then Some (20 * msPerDay) else None),
      toLowerCase = asciiLower,
      castObjectId = sampleCast,
      storeRejects = (\<lambda>p. None),
      castErrorMessage = ''Cast to date failed''\<rparr>"

definition rejectingDeps :: "int \<Rightarrow> deps" where
  "rejectingDeps c =
     (acceptingDeps [])\<lparr>post := (\<lambda>m. Inl \<lparr>error_message = ''Request failed with status code 400'',
        response_error = Some \<lparr>err_message = ''Template name does not exist'', err_type = ''OAuthException'',
          err_code = c, err_details = None, fbtrace_id = ''T1''\<rparr>\<rparr>)\<rparr>"


definition sampleVaccineBody :: "string \<Rightarrow> string option \<Rightarrow> vaccine_body" where
  "sampleVaccineBody ds tm =
     \<lparr>req_name = Some '' Moquillo '', req_date = Some ds, req_time = tm,
      req_location = Some ''Sala 1'', req_notes = None, req_lotNumber = None\<rparr>"

text \<open>The sample patient's phone followed by a no-break space (U+00A0).\<close>

definition nbspPhone :: string where
  "nbspPhone = ''5512345678'' @ [CHR 0xC2, CHR 0xA0]"

definition sampleClock :: "nat \<Rightarrow> date" where
  "sampleClock k = 5000 + int k"

section \<open>Phone normalization\<close>

lemma replaceNonDigits_filter: "replaceNonDigits ph = filter isDigit ph"
  by (induction ph) simp_all

text \<open>
  C9. For every input string, \<open>formatPhoneNumber\<close> is the normalization the
  specification describes, with the default country code \<open>52\<close>: the non-digits are
  stripped; exactly 10 digits are prefixed with the country code; otherwise an input
  that began with \<open>+\<close> is returned with only that leading character dropped; otherwise
  the stripped digits are returned.
\<close>

theorem formatPhoneNumber_normalizes: "formatPhoneNumber ph = normalizePhoneSpec ''52'' ph"
  by (cases ph)
    (simp_all add: formatPhoneNumber_def normalizePhoneSpec_def replaceNonDigits_filter Let_def)

section \<open>The store\<close>

lemma findOne_pid: "findOne oid ps = Some p \<Longrightarrow> pid p = oid"
  unfolding findOne_def by (induction ps) (auto split: if_splits)

lemma findOne_replace:
  "findOne oid ps = Some p \<Longrightarrow> pid p' = oid \<Longrightarrow>
   findOne oid (map (\<lambda>q. if pid q = oid then p' else q) ps) = Some p'"
  unfolding findOne_def by (induction ps) (auto split: if_splits)

lemma findOne_other:
  "j \<noteq> oid \<Longrightarrow> pid p' = oid \<Longrightarrow>
   findOne j (map (\<lambda>q. if pid q = oid then p' else q) ps) = findOne j ps"
  unfolding findOne_def by (induction ps) (auto split: if_splits)

lemma findById_found:
  "findById d i ps = Inr (Some p) \<Longrightarrow> castObjectId d i = Inr (pid p) \<and> findOne (pid p) ps = Some p"
  by (auto simp: findById_def split: sum.splits dest: findOne_pid)

lemma findById_replace:
  assumes "findById d i ps = Inr (Some p)" "pid p' = pid p"
  shows "findById d i (map (\<lambda>q. if pid q = pid p then p' else q) ps) = Inr (Some p')"
  using findById_found[OF assms(1)] findOne_replace[of "pid p" ps p p'] assms(2)
  by (simp add: findById_def)

text \<open>The identifier given to a new document is not in use.\<close>

lemma fold_max_ge: "(a::nat) \<le> fold max xs a"
  by (induction xs arbitrary: a) (auto intro: order_trans[OF max.cobounded2])

lemma fold_max_mem: "x \<in> set xs \<Longrightarrow> (x::nat) \<le> fold max xs a"
proof (induction xs arbitrary: a)
  case Nil
  then show ?case by simp
next
  case (Cons y ys)
  then show ?case
    using fold_max_ge[of "max y a" ys] by auto
qed

lemma newObjectId_fresh: "findOne (newObjectId ps) ps = None"
proof -
  have "pid p \<noteq> newObjectId ps" if "p \<in> set ps" for p
    using fold_max_mem[of "pid p" "map pid ps" 0] that by (simp add: newObjectId_def)
  thus ?thesis by (simp add: findOne_def find_None_iff)
qed

text \<open>\<open>trim\<close> on the sample strings; the no-break space is white space.\<close>

lemma trim_samples:
  "trim ''Luis Gil '' = ''Luis Gil''"
  "trim ''Mia'' = ''Mia''"
  "trim '' Moquillo '' = ''Moquillo''"
  "trim ''+52 55 9999 0000'' = ''+52 55 9999 0000''"
  "trim ''5599990000'' = ''5599990000''"
  "trim ''Luis@Example.COM'' = ''Luis@Example.COM''"
  "trim nbspPhone = ''5512345678''"
  by (simp_all add: trim_def stripLeading.simps whiteSpace_def nbspPhone_def)


lemmas sample_defs = sampleWorld_def samplePatient_def sampleVaccine_def acceptingDeps_def
  rejectingDeps_def sampleClock_def defaultConsent_def msPerDay_def anaId_def strayId_def
  sampleCast_def
lemmas reminder_defs = sendReminder_def sendTemplate_def findById_def findOne_def
  formatPhoneNumber_def isDigit_def saveExisting_def logTo_def clinicName_def orElse_def
  firstMessageId_def errorText_def mongoMessage_def interactionsOf_def storedPatient_def Let_def

section \<open>Reminder eligibility\<close>

lemma diffDays_int: "diffDays v t = - ((t - v) div msPerDay)"
  unfolding diffDays_def using ceiling_divide_eq_div[of "v - t" msPerDay] by simp

lemma diffDays_dateOnly: "diffDays (startOfDay t + k * msPerDay) t = k"
  unfolding diffDays_int msPerDay_def startOfDay_def by simp

text \<open>
  For a patient with a consent record \<open>needsReminder\<close> is as specified: false when
  there is no \<open>nextVaccine\<close> or \<open>consent.reminders\<close> is false, otherwise true exactly
  when \<open>0 \<le> diffDays \<le> daysBefore\<close>, \<open>diffDays\<close> being the ceiling of (vaccine date
  minus today) in days. With dates of date-only precision it returns true for a vaccine
  dated exactly \<open>daysBefore\<close> days from today (the window not negative), false for one
  dated \<open>daysBefore + 1\<close> days from today, and false for one dated yesterday.
\<close>

lemma needsReminder_due:
  "(nextVaccine p = None \<longrightarrow> needsReminder p daysBefore today = Inr False) \<and>
   (\<forall>c. consent p = Some c \<and> \<not> reminders c \<longrightarrow> needsReminder p daysBefore today = Inr False) \<and>
   (\<forall>v c. nextVaccine p = Some v \<and> consent p = Some c \<and> reminders c \<longrightarrow>
      needsReminder p daysBefore today =
        Inr (0 \<le> \<lceil>real_of_int (date v - today) / real_of_int msPerDay\<rceil>
             \<and> \<lceil>real_of_int (date v - today) / real_of_int msPerDay\<rceil> \<le> daysBefore)
      \<and> (0 \<le> daysBefore \<and> date v = startOfDay today + daysBefore * msPerDay \<longrightarrow>
            needsReminder p daysBefore today = Inr True)
      \<and> (date v = startOfDay today + (daysBefore + 1) * msPerDay \<longrightarrow>
            needsReminder p daysBefore today = Inr False)
      \<and> (date v = startOfDay today - msPerDay \<longrightarrow>
            needsReminder p daysBefore today = Inr False))"
proof -
  have yesterday: "diffDays (startOfDay today - msPerDay) today = - 1"
    using diffDays_dateOnly[of today "- 1"] by simp
  show ?thesis
    by (auto simp: needsReminder_def diffDays_dateOnly yesterday split: option.splits)
      (simp_all add: diffDays_def)
qed

text \<open>
  At 10:00 on day 7, the sample vaccine of day 10 is due with a window of 3 days and not
  with a window of 2; a vaccine of day 6 is not due; neither is a patient without one.
\<close>

lemma needsReminder_due_sample:
  "needsReminder samplePatient 3 (7 * msPerDay + 36000000) = Inr True
   \<and> needsReminder samplePatient 2 (7 * msPerDay + 36000000) = Inr False
   \<and> needsReminder (samplePatient\<lparr>nextVaccine := Some (sampleVaccine\<lparr>date := 6 * msPerDay\<rparr>)\<rparr>) 3
        (7 * msPerDay + 36000000) = Inr False
   \<and> needsReminder (samplePatient\<lparr>nextVaccine := None\<rparr>) 3 (7 * msPerDay + 36000000) = Inr False"
  using needsReminder_due[of samplePatient 3 "7 * msPerDay + 36000000"]
    needsReminder_due[of samplePatient 2 "7 * msPerDay + 36000000"]
    needsReminder_due[of "samplePatient\<lparr>nextVaccine := Some (sampleVaccine\<lparr>date := 6 * msPerDay\<rparr>)\<rparr>" 3
      "7 * msPerDay + 36000000"]
    needsReminder_due[of "samplePatient\<lparr>nextVaccine := None\<rparr>" 3 "7 * msPerDay + 36000000"]
  by (simp add: samplePatient_def sampleVaccine_def defaultConsent_def startOfDay_def msPerDay_def)


text \<open>
  For a patient with a consent record \<open>canReceiveOffers\<close> is as specified: false when
  \<open>consent.marketing\<close> is false or \<open>lastInteraction\<close> is absent; otherwise true exactly
  when the last interaction is at most 24 hours old, the boundary included: true at
  exactly 24 hours and at 24 hours minus one second, false at 24 hours plus one second.
\<close>

lemma canReceiveOffers_window:
  assumes "consent p = Some c"
  shows "canReceiveOffers p now =
           Inr (marketing c \<and>
                (case lastInteraction p of None \<Rightarrow> False | Some li \<Rightarrow> now - li \<le> 24 * 60 * 60 * 1000))
         \<and> (\<not> marketing c \<or> lastInteraction p = None \<longrightarrow> canReceiveOffers p now = Inr False)
         \<and> (marketing c \<and> lastInteraction p = Some (now - (24 * 60 * 60 * 1000 - 1000)) \<longrightarrow>
              canReceiveOffers p now = Inr True)
         \<and> (marketing c \<and> lastInteraction p = Some (now - 24 * 60 * 60 * 1000) \<longrightarrow>
              canReceiveOffers p now = Inr True)
         \<and> (marketing c \<and> lastInteraction p = Some (now - (24 * 60 * 60 * 1000 + 1000)) \<longrightarrow>
              canReceiveOffers p now = Inr False)"
  using assms by (auto simp: canReceiveOffers_def split: option.splits)

lemma canReceiveOffers_window_sample:
  "canReceiveOffers (samplePatient\<lparr>consent := Some ((defaultConsent 0 0)\<lparr>marketing := True\<rparr>),
                                   lastInteraction := Some 1000\<rparr>) 86400000 = Inr True
   \<and> canReceiveOffers (samplePatient\<lparr>consent := Some ((defaultConsent 0 0)\<lparr>marketing := True\<rparr>),
                                   lastInteraction := Some 1000\<rparr>) 86402000 = Inr False
   \<and> canReceiveOffers samplePatient 86400000 = Inr False"
  using canReceiveOffers_window[of "samplePatient\<lparr>consent := Some ((defaultConsent 0 0)\<lparr>marketing := True\<rparr>),
                                   lastInteraction := Some 1000\<rparr>" "(defaultConsent 0 0)\<lparr>marketing := True\<rparr>" 86400000]
    canReceiveOffers_window[of "samplePatient\<lparr>consent := Some ((defaultConsent 0 0)\<lparr>marketing := True\<rparr>),
                                   lastInteraction := Some 1000\<rparr>" "(defaultConsent 0 0)\<lparr>marketing := True\<rparr>" 86402000]
    canReceiveOffers_window[of samplePatient "defaultConsent 0 0" 86400000]
  by (simp add: samplePatient_def defaultConsent_def)


section \<open>Sending a reminder\<close>

text \<open>Once the client exists, the route is its handler.\<close>

lemma reminderRoute_with_client:
  "whatsappClient w \<Longrightarrow> reminderRoute d clock i w = sendReminder d clock i w"
  by (simp add: reminderRoute_def initWhatsApp_def ensureClient_def)

lemma sendTemplate_reminder:
  "sendTemplate d (phone p) ''recordatorio_vacuna''
     [fullName p, petName p, name v, toLocaleDateString d (date v), time v, location v, clinicName d] w =
   (case post d (reminderRequest d p v) of
      Inr resp \<Rightarrow> (Inr resp, logTo (ConsoleLog (okMark @ ''Plantilla '' @ [CHR 0x22] @ ''recordatorio_vacuna'' @ [CHR 0x22] @ '' enviada a '' @ phone p))
                      (w\<lparr>outbox := outbox w @ [reminderRequest d p v]\<rparr>))
    | Inl e \<Rightarrow> (Inl e, logTo (ConsoleError (errMark @ ''Error enviando plantilla: '' @ errorText e))
                      (w\<lparr>outbox := outbox w @ [reminderRequest d p v]\<rparr>)))"
  by (simp add: sendTemplate_def reminderRequest_def Let_def split: sum.splits)

text \<open>
  What the handler does for a patient who has a scheduled vaccine and allows reminders:
  one template request, then either the gateway's failure or the save.
\<close>

lemma sendReminder_eligible:
  assumes "findById d i (patients w) = Inr (Some p)" "nextVaccine p = Some v" "remindersAllowed p"
  shows "sendReminder d clock i w =
     (case post d (reminderRequest d p v) of
        Inl e \<Rightarrow>
          (Inl (ServerError (errorText e)),
           w\<lparr>outbox := outbox w @ [reminderRequest d p v],
             console := console w @ [ConsoleError (errMark @ ''Error enviando plantilla: '' @ errorText e),
                                     ConsoleError (errMark @ ''Error enviando recordatorio: '' @ error_message e)]\<rparr>)
      | Inr resp \<Rightarrow>
          (case storeRejects d (withReminder p (reminderRecord v resp (clock 0)) (clock 1)) of
             Some m \<Rightarrow>
               (Inl (ServerError m),
                w\<lparr>outbox := outbox w @ [reminderRequest d p v],
                  console := console w @
                    [ConsoleLog (okMark @ ''Plantilla '' @ [CHR 0x22] @ ''recordatorio_vacuna'' @ [CHR 0x22] @ '' enviada a '' @ phone p),
                     ConsoleError (errMark @ ''Error enviando recordatorio: '' @ m)]\<rparr>)
           | None \<Rightarrow>
               (Inr (messageId (reminderRecord v resp (clock 0)), fullName p, name v),
                w\<lparr>patients := map (\<lambda>q. if pid q = pid p
                                        then (withReminder p (reminderRecord v resp (clock 0)) (clock 1))\<lparr>docUpdatedAt := Some (clock 2)\<rparr>
                                        else q) (patients w),
                  outbox := outbox w @ [reminderRequest d p v],
                  console := console w @
                    [ConsoleLog (okMark @ ''Plantilla '' @ [CHR 0x22] @ ''recordatorio_vacuna'' @ [CHR 0x22] @ '' enviada a '' @ phone p)]\<rparr>)))"
  using assms
  by (simp add: sendReminder_def sendTemplate_reminder logTo_def Let_def remindersAllowed_def
      reminderRecord_def withReminder_def firstMessageId_def saveExisting_def mongoMessage_def
      split: sum.splits option.splits)

lemma sendReminder_Inr_eligible:
  assumes "sendReminder d clock i w = (Inr r, w')"
  shows "\<exists>p v. findById d i (patients w) = Inr (Some p) \<and> nextVaccine p = Some v \<and> remindersAllowed p"
  using assms
  by (auto simp: sendReminder_def remindersAllowed_def split: sum.splits option.splits if_splits)

lemma interactionsOf_after:
  assumes "findById d i (patients w) = Inr (Some p)"
  shows "interactionsOf d i (w\<lparr>patients := map (\<lambda>q. if pid q = pid p then (withReminder p x t)\<lparr>docUpdatedAt := u\<rparr> else q) (patients w),
             outbox := ob, console := co\<rparr>) = interactionsOf d i w @ [x]"
  using findById_replace[OF assms, of "(withReminder p x t)\<lparr>docUpdatedAt := u\<rparr>"] assms
  by (simp add: interactionsOf_def storedPatient_def withReminder_def)

lemma sendReminder_Inr_after:
  assumes "sendReminder d clock i w = (Inr r, w1)"
  shows "\<exists>p v x. findById d i (patients w) = Inr (Some p) \<and> nextVaccine p = Some v \<and> remindersAllowed p
           \<and> findById d i (patients w1)
               = Inr (Some ((withReminder p x (clock 1))\<lparr>docUpdatedAt := Some (clock 2)\<rparr>))
           \<and> interactionsOf d i w1 = interactionsOf d i w @ [x]"
proof -
  obtain p v where pv: "findById d i (patients w) = Inr (Some p)" "nextVaccine p = Some v" "remindersAllowed p"
    using sendReminder_Inr_eligible[OF assms] by blast
  from assms obtain resp where resp: "post d (reminderRequest d p v) = Inr resp"
    and acc: "storeRejects d (withReminder p (reminderRecord v resp (clock 0)) (clock 1)) = None"
    unfolding sendReminder_eligible[OF pv]
    by (auto split: sum.splits option.splits)
  let ?x = "reminderRecord v resp (clock 0)"
  let ?p' = "(withReminder p ?x (clock 1))\<lparr>docUpdatedAt := Some (clock 2)\<rparr>"
  from assms resp acc have w1: "w1 = w\<lparr>patients := map (\<lambda>q. if pid q = pid p then ?p' else q) (patients w),
                  outbox := outbox w @ [reminderRequest d p v],
                  console := console w @
                    [ConsoleLog (okMark @ ''Plantilla '' @ [CHR 0x22] @ ''recordatorio_vacuna'' @ [CHR 0x22] @ '' enviada a '' @ phone p)]\<rparr>"
    unfolding sendReminder_eligible[OF pv] by simp_all
  have found: "findById d i (patients w1) = Inr (Some ?p')"
    unfolding w1 using findById_replace[OF pv(1), of ?p'] by (simp add: withReminder_def)
  have ints: "interactionsOf d i w1 = interactionsOf d i w @ [?x]"
    unfolding w1 by (rule interactionsOf_after[OF pv(1)])
  show ?thesis using pv found ints by blast
qed

lemma sample_reminder_sent:
  "sendReminder (acceptingDeps [''wamid.7'']) sampleClock anaId sampleWorld =
     (Inr (Some ''wamid.7'', ''Ana Ruiz'', ''Rabia''),
      snd (sendReminder (acceptingDeps [''wamid.7'']) sampleClock anaId sampleWorld))"
  by (simp add: prod_eq_iff sample_defs reminder_defs)

lemma initWhatsApp_cases:
  "(clientAvailable d w \<longrightarrow>
      (\<exists>w0. initWhatsApp d w = Inr w0 \<and> patients w0 = patients w \<and> outbox w0 = outbox w
             \<and> whatsappClient w0))
   \<and> (\<not> clientAvailable d w \<longrightarrow>
      initWhatsApp d w =
        Inl (ServerError (''Error inicializando WhatsApp: ''
                          @ ''WhatsApp credentials not configured. Run: npm run setup'')))"
  by (auto simp: clientAvailable_def initWhatsApp_def ensureClient_def newWhatsAppClient_def logTo_def
      split: if_splits)

text \<open>
  C3, as the code has it. When the gateway client cannot be constructed the route
  answers a server error before it looks anything up. With the client available:
  an \<open>:id\<close> that denotes no identifier is answered as a server error; an identifier no
  patient has gives \<open>NotFoundError\<close>; a patient without \<open>nextVaccine\<close> gives
  \<open>NoScheduledVaccineError\<close>; a patient whose \<open>consent.reminders\<close> is false gives
  \<open>ConsentDeniedError\<close>. Each of these failures leaves the patients and the requests
  sent as they were: no interaction record is appended and no message is sent. An
  absent consent record counts as reminders allowed: the template request is issued.
\<close>

theorem reminderRoute_refusals:
  "(\<not> clientAvailable d w \<longrightarrow>
      reminderRoute d clock i w =
        (Inl (ServerError (''Error inicializando WhatsApp: ''
                           @ ''WhatsApp credentials not configured. Run: npm run setup'')), w)) \<and>
   (clientAvailable d w \<longrightarrow>
      (\<forall>m. findById d i (patients w) = Inl m \<longrightarrow>
         fst (reminderRoute d clock i w) = Inl (ServerError m)
         \<and> patients (snd (reminderRoute d clock i w)) = patients w
         \<and> outbox (snd (reminderRoute d clock i w)) = outbox w) \<and>
      (findById d i (patients w) = Inr None \<longrightarrow>
         fst (reminderRoute d clock i w) = Inl NotFoundError
         \<and> patients (snd (reminderRoute d clock i w)) = patients w
         \<and> outbox (snd (reminderRoute d clock i w)) = outbox w) \<and>
      (\<forall>p. findById d i (patients w) = Inr (Some p) \<and> nextVaccine p = None \<longrightarrow>
         fst (reminderRoute d clock i w) = Inl NoScheduledVaccineError
         \<and> patients (snd (reminderRoute d clock i w)) = patients w
         \<and> outbox (snd (reminderRoute d clock i w)) = outbox w) \<and>
      (\<forall>p v c. findById d i (patients w) = Inr (Some p) \<and> nextVaccine p = Some v
            \<and> consent p = Some c \<and> \<not> reminders c \<longrightarrow>
         fst (reminderRoute d clock i w) = Inl ConsentDeniedError
         \<and> patients (snd (reminderRoute d clock i w)) = patients w
         \<and> outbox (snd (reminderRoute d clock i w)) = outbox w) \<and>
      (\<forall>p v. findById d i (patients w) = Inr (Some p) \<and> nextVaccine p = Some v \<and> consent p = None \<longrightarrow>
         fst (reminderRoute d clock i w) \<noteq> Inl ConsentDeniedError
         \<and> outbox (snd (reminderRoute d clock i w)) = outbox w @ [reminderRequest d p v]))"
proof (rule conjI)
  show "\<not> clientAvailable d w \<longrightarrow>
      reminderRoute d clock i w =
        (Inl (ServerError (''Error inicializando WhatsApp: ''
                           @ ''WhatsApp credentials not configured. Run: npm run setup'')), w)"
    using initWhatsApp_cases[of d w] by (simp add: reminderRoute_def)
next
  let ?goal = "(\<forall>m. findById d i (patients w) = Inl m \<longrightarrow>
         fst (reminderRoute d clock i w) = Inl (ServerError m)
         \<and> patients (snd (reminderRoute d clock i w)) = patients w
         \<and> outbox (snd (reminderRoute d clock i w)) = outbox w) \<and>
      (findById d i (patients w) = Inr None \<longrightarrow>
         fst (reminderRoute d clock i w) = Inl NotFoundError
         \<and> patients (snd (reminderRoute d clock i w)) = patients w
         \<and> outbox (snd (reminderRoute d clock i w)) = outbox w) \<and>
      (\<forall>p. findById d i (patients w) = Inr (Some p) \<and> nextVaccine p = None \<longrightarrow>
         fst (reminderRoute d clock i w) = Inl NoScheduledVaccineError
         \<and> patients (snd (reminderRoute d clock i w)) = patients w
         \<and> outbox (snd (reminderRoute d clock i w)) = outbox w) \<and>
      (\<forall>p v c. findById d i (patients w) = Inr (Some p) \<and> nextVaccine p = Some v
            \<and> consent p = Some c \<and> \<not> reminders c \<longrightarrow>
         fst (reminderRoute d clock i w) = Inl ConsentDeniedError
         \<and> patients (snd (reminderRoute d clock i w)) = patients w
         \<and> outbox (snd (reminderRoute d clock i w)) = outbox w) \<and>
      (\<forall>p v. findById d i (patients w) = Inr (Some p) \<and> nextVaccine p = Some v \<and> consent p = None \<longrightarrow>
         fst (reminderRoute d clock i w) \<noteq> Inl ConsentDeniedError
         \<and> outbox (snd (reminderRoute d clock i w)) = outbox w @ [reminderRequest d p v])"
  have ?goal if av: "clientAvailable d w"
  proof -
    from av obtain w0 where w0: "initWhatsApp d w = Inr w0" "patients w0 = patients w" "outbox w0 = outbox w"
      using initWhatsApp_cases[of d w] by blast
    have route: "reminderRoute d clock i w = sendReminder d clock i w0"
      by (simp add: reminderRoute_def w0(1))
    show ?thesis
      unfolding route using w0(2,3)
      by (auto simp: sendReminder_def sendTemplate_reminder logTo_def Let_def
          split: option.splits sum.splits mongo_error.splits)
  qed
  then show "clientAvailable d w \<longrightarrow> ?goal" by (rule impI)
qed

text \<open>
  With the client constructed: a stray identifier, a patient without a vaccine, a
  patient who switched reminders off, a patient without a consent record. And with no
  client and no access token.
\<close>

theorem reminderRoute_refusals_witness:
  "fst (reminderRoute (acceptingDeps []) sampleClock strayId sampleWorld) = Inl NotFoundError
   \<and> fst (reminderRoute (acceptingDeps []) sampleClock anaId
            (sampleWorld\<lparr>patients := [samplePatient\<lparr>nextVaccine := None\<rparr>]\<rparr>))
       = Inl NoScheduledVaccineError
   \<and> fst (reminderRoute (acceptingDeps []) sampleClock anaId
            (sampleWorld\<lparr>patients := [samplePatient\<lparr>consent := Some ((defaultConsent 0 0)\<lparr>reminders := False\<rparr>)\<rparr>]\<rparr>))
       = Inl ConsentDeniedError
   \<and> outbox (snd (reminderRoute (acceptingDeps []) sampleClock anaId
            (sampleWorld\<lparr>patients := [samplePatient\<lparr>consent := Some ((defaultConsent 0 0)\<lparr>reminders := False\<rparr>)\<rparr>]\<rparr>)))
       = []
   \<and> length (outbox (snd (reminderRoute (acceptingDeps []) sampleClock anaId
         (sampleWorld\<lparr>patients := [samplePatient\<lparr>consent := None\<rparr>]\<rparr>)))) = 1
   \<and> fst (reminderRoute ((acceptingDeps [])\<lparr>WHATSAPP_ACCESS_TOKEN := None\<rparr>) sampleClock anaId
            (sampleWorld\<lparr>whatsappClient := False\<rparr>))
       = Inl (ServerError ''Error inicializando WhatsApp: WhatsApp credentials not configured. Run: npm run setup'')"
  using reminderRoute_refusals[of "acceptingDeps []" sampleWorld sampleClock strayId]
    reminderRoute_refusals[of "acceptingDeps []" "sampleWorld\<lparr>patients := [samplePatient\<lparr>nextVaccine := None\<rparr>]\<rparr>"
      sampleClock anaId]
    reminderRoute_refusals[of "acceptingDeps []"
      "sampleWorld\<lparr>patients := [samplePatient\<lparr>consent := Some ((defaultConsent 0 0)\<lparr>reminders := False\<rparr>)\<rparr>]\<rparr>"
      sampleClock anaId]
    reminderRoute_refusals[of "acceptingDeps []" "sampleWorld\<lparr>patients := [samplePatient\<lparr>consent := None\<rparr>]\<rparr>"
      sampleClock anaId]
    reminderRoute_refusals[of "(acceptingDeps [])\<lparr>WHATSAPP_ACCESS_TOKEN := None\<rparr>"
      "sampleWorld\<lparr>whatsappClient := False\<rparr>" sampleClock anaId]
  by (simp add: sample_defs findById_def findOne_def clientAvailable_def newWhatsAppClient_def orElse_def)

text \<open>
  C3 as stated fails: for the string \<open>abc\<close>, which denotes no identifier and so no
  patient, the answer is a server error and not \<open>NotFoundError\<close>; and for an identifier
  no patient has, with no client and no access token, the answer is the middleware's
  server error.
\<close>

theorem reminderRoute_notfound_counterexample:
  "reminderRoute (acceptingDeps []) sampleClock ''abc'' sampleWorld
     = (Inl (ServerError (''Cast to ObjectId failed for value '' @ [CHR 0x22] @ ''abc'' @ [CHR 0x22])),
        sampleWorld\<lparr>console := [ConsoleError (errMark @ ''Error enviando recordatorio: ''
            @ ''Cast to ObjectId failed for value '' @ [CHR 0x22] @ ''abc'' @ [CHR 0x22])]\<rparr>)
   \<and> findById ((acceptingDeps [])\<lparr>WHATSAPP_ACCESS_TOKEN := None\<rparr>) strayId
        (patients (sampleWorld\<lparr>whatsappClient := False\<rparr>)) = Inr None
   \<and> reminderRoute ((acceptingDeps [])\<lparr>WHATSAPP_ACCESS_TOKEN := None\<rparr>) sampleClock strayId
        (sampleWorld\<lparr>whatsappClient := False\<rparr>)
     = (Inl (ServerError ''Error inicializando WhatsApp: WhatsApp credentials not configured. Run: npm run setup''),
        sampleWorld\<lparr>whatsappClient := False\<rparr>)"
  by (simp add: sample_defs reminder_defs reminderRoute_def initWhatsApp_def ensureClient_def
      newWhatsAppClient_def)

text \<open>
  C2, as the code has it. A successful \<open>sendReminder\<close> appends exactly one interaction
  record, of type \<open>REMINDER_SENT\<close> and status \<open>SENT\<close>, whose \<open>messageId\<close> is the
  identifier of the first message in the provider's answer (absent when the answer
  lists none) and whose timestamp is the clock read when the record is built;
  \<open>lastInteraction\<close> is set to a second, later read of the clock, which is the
  record's timestamp when the clock has not advanced in between.
\<close>

theorem sendReminder_appends_record:
  assumes "sendReminder d clock i w = (Inr r, w')"
  shows "\<exists>p v resp x.
           findById d i (patients w) = Inr (Some p) \<and> nextVaccine p = Some v
           \<and> post d (reminderRequest d p v) = Inr resp
           \<and> interactionsOf d i w' = interactionsOf d i w @ [x]
           \<and> itype x = REMINDER_SENT \<and> status x = Some SENT
           \<and> messageId x = (case messages resp of [] \<Rightarrow> None | m # ms \<Rightarrow> Some m)
           \<and> timestamp x = Some (clock 0)
           \<and> fst r = messageId x
           \<and> map_option lastInteraction (storedPatient d i w') = Some (Some (clock 1))
           \<and> (clock 1 = clock 0 \<longrightarrow>
                map_option lastInteraction (storedPatient d i w') = Some (timestamp x))"
proof -
  obtain p v where pv: "findById d i (patients w) = Inr (Some p)" "nextVaccine p = Some v" "remindersAllowed p"
    using sendReminder_Inr_eligible[OF assms] by blast
  from assms obtain resp where resp: "post d (reminderRequest d p v) = Inr resp"
    and acc: "storeRejects d (withReminder p (reminderRecord v resp (clock 0)) (clock 1)) = None"
    unfolding sendReminder_eligible[OF pv]
    by (auto split: sum.splits option.splits)
  let ?x = "reminderRecord v resp (clock 0)"
  let ?p' = "(withReminder p ?x (clock 1))\<lparr>docUpdatedAt := Some (clock 2)\<rparr>"
  from assms resp acc have r: "r = (messageId ?x, fullName p, name v)"
    and w': "w' = w\<lparr>patients := map (\<lambda>q. if pid q = pid p then ?p' else q) (patients w),
                  outbox := outbox w @ [reminderRequest d p v],
                  console := console w @
                    [ConsoleLog (okMark @ ''Plantilla '' @ [CHR 0x22] @ ''recordatorio_vacuna'' @ [CHR 0x22] @ '' enviada a '' @ phone p)]\<rparr>"
    unfolding sendReminder_eligible[OF pv] by simp_all
  have found: "storedPatient d i w' = Some ?p'"
    unfolding w' using findById_replace[OF pv(1), of ?p']
    by (simp add: storedPatient_def withReminder_def)
  have ints: "interactionsOf d i w' = interactionsOf d i w @ [?x]"
    unfolding w' by (rule interactionsOf_after[OF pv(1)])
  show ?thesis
    apply (rule exI[of _ p], rule exI[of _ v], rule exI[of _ resp], rule exI[of _ ?x])
    using pv resp ints r found
    by (simp add: reminderRecord_def withReminder_def)
qed

text \<open>
  The sample patient, a provider that answers with the identifier \<open>wamid.7\<close>, and a
  clock that advances by a millisecond at every read.
\<close>

theorem sendReminder_appends_record_witness:
  "map itype (interactionsOf (acceptingDeps [''wamid.7'']) anaId
       (snd (sendReminder (acceptingDeps [''wamid.7'']) sampleClock anaId sampleWorld)))
     = [REMINDER_SENT]
   \<and> map status (interactionsOf (acceptingDeps [''wamid.7'']) anaId
       (snd (sendReminder (acceptingDeps [''wamid.7'']) sampleClock anaId sampleWorld)))
     = [Some SENT]
   \<and> map messageId (interactionsOf (acceptingDeps [''wamid.7'']) anaId
       (snd (sendReminder (acceptingDeps [''wamid.7'']) sampleClock anaId sampleWorld)))
     = [Some ''wamid.7'']
   \<and> map_option lastInteraction
        (storedPatient (acceptingDeps [''wamid.7'']) anaId
           (snd (sendReminder (acceptingDeps [''wamid.7'']) sampleClock anaId sampleWorld)))
     = Some (Some 5001)"
  using sendReminder_appends_record[OF sample_reminder_sent]
  by (auto simp: sample_defs interactionsOf_def storedPatient_def findById_def findOne_def)

text \<open>
  C2 as stated fails: when the provider's answer lists no message the call still
  succeeds and the appended record has no \<open>messageId\<close>; and with a clock that advances
  between the two reads, \<open>lastInteraction\<close> is not the record's timestamp.
\<close>

theorem sendReminder_record_counterexample:
  "fst (sendReminder (acceptingDeps []) sampleClock anaId sampleWorld) = Inr (None, ''Ana Ruiz'', ''Rabia'')
   \<and> map messageId (interactionsOf (acceptingDeps []) anaId
        (snd (sendReminder (acceptingDeps []) sampleClock anaId sampleWorld)))
       = [None]
   \<and> map timestamp (interactionsOf (acceptingDeps []) anaId
        (snd (sendReminder (acceptingDeps []) sampleClock anaId sampleWorld)))
       = [Some 5000]
   \<and> map_option lastInteraction
        (storedPatient (acceptingDeps []) anaId
           (snd (sendReminder (acceptingDeps []) sampleClock anaId sampleWorld)))
       = Some (Some 5001)"
  by (simp add: sample_defs reminder_defs)

text \<open>
  C4, as the code has it. When the template send fails, the caller receives the
  provider's error message verbatim when the provider gave a non-empty one, and the
  transport's error message otherwise; the patients are unchanged (no interaction
  record, \<open>lastInteraction\<close> as before) and exactly one request was issued (no retry).
  The provider's numeric code is not part of the answer.
\<close>

theorem sendReminder_gateway_failure:
  assumes "findById d i (patients w) = Inr (Some p)" "nextVaccine p = Some v" "remindersAllowed p"
    and "post d (reminderRequest d p v) = Inl e"
  shows "fst (sendReminder d clock i w) =
           Inl (ServerError (case response_error e of
                               None \<Rightarrow> error_message e
                             | Some pe \<Rightarrow> if err_message pe = [] then error_message e else err_message pe))
         \<and> patients (snd (sendReminder d clock i w)) = patients w
         \<and> outbox (snd (sendReminder d clock i w)) = outbox w @ [reminderRequest d p v]"
  unfolding sendReminder_eligible[OF assms(1-3)] using assms(4)
  by (simp add: errorText_def orElse_def split: option.splits list.splits)

theorem sendReminder_gateway_failure_witness:
  "fst (sendReminder (rejectingDeps 132001) sampleClock anaId sampleWorld) =
     Inl (ServerError ''Template name does not exist'')
   \<and> patients (snd (sendReminder (rejectingDeps 132001) sampleClock anaId sampleWorld)) = [samplePatient]
   \<and> length (outbox (snd (sendReminder (rejectingDeps 132001) sampleClock anaId sampleWorld))) = 1"
proof -
  have a: "findById (rejectingDeps 132001) anaId (patients sampleWorld) = Inr (Some samplePatient)"
    by (simp add: sample_defs findById_def findOne_def)
  have b: "nextVaccine samplePatient = Some sampleVaccine" by (simp add: samplePatient_def)
  have c: "remindersAllowed samplePatient"
    by (simp add: samplePatient_def remindersAllowed_def defaultConsent_def)
  have e: "post (rejectingDeps 132001) (reminderRequest (rejectingDeps 132001) samplePatient sampleVaccine) =
      Inl \<lparr>error_message = ''Request failed with status code 400'',
        response_error = Some \<lparr>err_message = ''Template name does not exist'', err_type = ''OAuthException'',
          err_code = 132001, err_details = None, fbtrace_id = ''T1''\<rparr>\<rparr>"
    by (simp add: rejectingDeps_def)
  show ?thesis
    using sendReminder_gateway_failure[OF a b c e, of sampleClock]
    by (simp add: sampleWorld_def)
qed

text \<open>
  C4 as stated fails: two provider errors that differ in their code yield the very same
  answer and state, so the code does not reach the caller.
\<close>

theorem sendReminder_error_code_counterexample:
  "post (rejectingDeps 132001) (reminderRequest (rejectingDeps 132001) samplePatient sampleVaccine)
     \<noteq> post (rejectingDeps 131026) (reminderRequest (rejectingDeps 131026) samplePatient sampleVaccine)
   \<and> sendReminder (rejectingDeps 132001) sampleClock anaId sampleWorld
     = sendReminder (rejectingDeps 131026) sampleClock anaId sampleWorld
   \<and> fst (sendReminder (rejectingDeps 132001) sampleClock anaId sampleWorld)
     = Inl (ServerError ''Template name does not exist'')"
  by (simp add: sample_defs reminder_defs reminderRequest_def)

text \<open>
  C10. A successful \<open>sendReminder\<close> leaves the patient's \<open>nextVaccine\<close> and
  \<open>vaccineHistory\<close> (and consent) unchanged. A further call for the same patient (the
  \<open>:id\<close> denoting the same identifier) is therefore never refused as not found, unscheduled or not consented; it succeeds
  whenever the provider accepts and the store writes; and each success appends one more
  interaction record.
\<close>

theorem sendReminder_keeps_vaccine:
  assumes "sendReminder d clock i w = (Inr r, w1)"
  shows "(\<exists>p p1. findById d i (patients w) = Inr (Some p) \<and> findById d i (patients w1) = Inr (Some p1)
            \<and> nextVaccine p1 = nextVaccine p \<and> nextVaccine p1 \<noteq> None
            \<and> vaccineHistory p1 = vaccineHistory p \<and> consent p1 = consent p)
         \<and> (\<forall>d2 clock2. castObjectId d2 i = castObjectId d i \<longrightarrow>
                fst (sendReminder d2 clock2 i w1) \<noteq> Inl NotFoundError
                \<and> fst (sendReminder d2 clock2 i w1) \<noteq> Inl NoScheduledVaccineError
                \<and> fst (sendReminder d2 clock2 i w1) \<noteq> Inl ConsentDeniedError)
         \<and> (\<forall>d2 clock2. castObjectId d2 i = castObjectId d i
                \<and> (\<forall>m. \<exists>resp. post d2 m = Inr resp) \<and> (\<forall>q. storeRejects d2 q = None) \<longrightarrow>
                isl (fst (sendReminder d2 clock2 i w1)) = False)
         \<and> (\<forall>d2 clock2 r2 w2. castObjectId d2 i = castObjectId d i
                \<and> sendReminder d2 clock2 i w1 = (Inr r2, w2) \<longrightarrow>
                length (interactionsOf d2 i w2) = length (interactionsOf d i w) + 2)"
proof -
  from sendReminder_Inr_after[OF assms] obtain p v x where
    pv: "findById d i (patients w) = Inr (Some p)" "nextVaccine p = Some v" "remindersAllowed p"
    and f1: "findById d i (patients w1) = Inr (Some ((withReminder p x (clock 1))\<lparr>docUpdatedAt := Some (clock 2)\<rparr>))"
    and i1: "interactionsOf d i w1 = interactionsOf d i w @ [x]" by blast
  let ?p1 = "(withReminder p x (clock 1))\<lparr>docUpdatedAt := Some (clock 2)\<rparr>"
  have v1: "nextVaccine ?p1 = Some v" and a1: "remindersAllowed ?p1"
    using pv by (simp_all add: withReminder_def remindersAllowed_def)
  have same: "findById d2 i ps = findById d i ps" if "castObjectId d2 i = castObjectId d i" for d2 ps
    using that by (simp add: findById_def)
  have A: "\<exists>p p1. findById d i (patients w) = Inr (Some p) \<and> findById d i (patients w1) = Inr (Some p1)
            \<and> nextVaccine p1 = nextVaccine p \<and> nextVaccine p1 \<noteq> None
            \<and> vaccineHistory p1 = vaccineHistory p \<and> consent p1 = consent p"
    using pv f1 by (simp add: withReminder_def)
  have B: "fst (sendReminder d2 clock2 i w1) \<noteq> Inl NotFoundError
         \<and> fst (sendReminder d2 clock2 i w1) \<noteq> Inl NoScheduledVaccineError
         \<and> fst (sendReminder d2 clock2 i w1) \<noteq> Inl ConsentDeniedError"
    if h0: "castObjectId d2 i = castObjectId d i" for d2 clock2
  proof -
    have f2: "findById d2 i (patients w1) = Inr (Some ?p1)" using f1 same[OF h0] by simp
    show ?thesis
      unfolding sendReminder_eligible[OF f2 v1 a1]
      by (simp split: sum.splits option.splits)
  qed
  have C: "isl (fst (sendReminder d2 clock2 i w1)) = False"
    if h0: "castObjectId d2 i = castObjectId d i"
      and h1: "\<forall>m. \<exists>resp. post d2 m = Inr resp" and h2: "\<forall>q. storeRejects d2 q = None" for d2 clock2
  proof -
    have f2: "findById d2 i (patients w1) = Inr (Some ?p1)" using f1 same[OF h0] by simp
    obtain resp where "post d2 (reminderRequest d2 ?p1 v) = Inr resp"
      using h1 by blast
    thus ?thesis unfolding sendReminder_eligible[OF f2 v1 a1] using h2 by simp
  qed
  have D: "length (interactionsOf d2 i w2) = length (interactionsOf d i w) + 2"
    if h0: "castObjectId d2 i = castObjectId d i"
      and "sendReminder d2 clock2 i w1 = (Inr r2, w2)" for d2 clock2 r2 w2
  proof -
    have "interactionsOf d2 i w1 = interactionsOf d i w1"
      using same[OF h0] by (simp add: interactionsOf_def storedPatient_def)
    with sendReminder_Inr_after[OF that(2)] i1 show ?thesis by auto
  qed
  show ?thesis using A B C D by blast
qed

theorem sendReminder_keeps_vaccine_witness:
  "map_option nextVaccine
     (storedPatient (acceptingDeps [''wamid.7'']) anaId
        (snd (sendReminder (acceptingDeps [''wamid.7'']) sampleClock anaId sampleWorld)))
     = Some (Some sampleVaccine)
   \<and> fst (sendReminder (acceptingDeps [''wamid.8'']) sampleClock anaId
            (snd (sendReminder (acceptingDeps [''wamid.7'']) sampleClock anaId sampleWorld)))
     = Inr (Some ''wamid.8'', ''Ana Ruiz'', ''Rabia'')
   \<and> map messageId (interactionsOf (acceptingDeps [''wamid.8'']) anaId
        (snd (sendReminder (acceptingDeps [''wamid.8'']) sampleClock anaId
            (snd (sendReminder (acceptingDeps [''wamid.7'']) sampleClock anaId sampleWorld)))))
     = [Some ''wamid.7'', Some ''wamid.8'']"
  using sendReminder_keeps_vaccine[OF sample_reminder_sent]
  by (simp add: sample_defs reminder_defs)

section \<open>Updating consent\<close>

lemma saveExisting_accepts:
  "storeRejects d doc = None \<Longrightarrow>
   saveExisting d t doc ps = Inr (map (\<lambda>q. if pid q = pid doc then doc\<lparr>docUpdatedAt := Some t\<rparr> else q) ps)"
  by (simp add: saveExisting_def)

lemma mergeConsentSpec_fields:
  "mergeConsentSpec cur body t =
     \<lparr>marketing = (case req_marketing body of Some b \<Rightarrow> b | None \<Rightarrow> marketing cur),
      reminders = (case req_reminders body of Some b \<Rightarrow> b | None \<Rightarrow> reminders cur),
      privacy = (case req_privacy body of Some b \<Rightarrow> b | None \<Rightarrow> privacy cur),
      givenAt = givenAt cur,
      updatedAt = t\<rparr>"
  by (cases cur) (simp add: mergeConsentSpec_def Let_def split: option.splits)

lemma updateConsent_found:
  assumes "findById d i (patients w) = Inr (Some p)"
    and "cur = (case consent p of Some c \<Rightarrow> c | None \<Rightarrow> defaultConsent (clock 0) (clock 1))"
    and "k = (case consent p of Some c \<Rightarrow> 0 | None \<Rightarrow> 2)"
    and "storeRejects d (p\<lparr>consent := Some (mergeConsentSpec cur body (clock k))\<rparr>) = None"
  shows "updateConsent d clock i body w =
           (Inr (mergeConsentSpec cur body (clock k)),
            w\<lparr>patients := map (\<lambda>q. if pid q = pid p
                then p\<lparr>consent := Some (mergeConsentSpec cur body (clock k)), docUpdatedAt := Some (clock (k + 1))\<rparr>
                else q) (patients w)\<rparr>)"
  using assms
  by (cases "consent p")
    (simp_all add: updateConsent_def mergeConsentSpec_fields saveExisting_accepts Let_def)

text \<open>
  C5. For an existing patient whose write the store accepts, \<open>updateConsent\<close> answers
  and stores the current consent (the stored one, or the default when none is stored)
  with only the fields present in the partial update changed, \<open>updatedAt\<close> set to the
  clock read at the update and \<open>givenAt\<close> kept; nothing else of the patient and no
  other patient changes. In particular \<open>{marketing: true}\<close> on a default consent
  leaves \<open>reminders = true\<close> and \<open>privacy = true\<close>. An identifier no patient has is
  \<open>NotFoundError\<close>; an \<open>:id\<close> that denotes no identifier is a server error.
\<close>

theorem updateConsent_merges:
  "(findById d i (patients w) = Inr None \<longrightarrow> updateConsent d clock i body w = (Inl NotFoundError, w)) \<and>
   (\<forall>m. findById d i (patients w) = Inl m \<longrightarrow>
      fst (updateConsent d clock i body w) = Inl (ServerError (''Error al actualizar consentimiento: '' @ m))
      \<and> patients (snd (updateConsent d clock i body w)) = patients w) \<and>
   (\<forall>p cur k.
      findById d i (patients w) = Inr (Some p)
      \<and> cur = (case consent p of Some c \<Rightarrow> c | None \<Rightarrow> defaultConsent (clock 0) (clock 1))
      \<and> k = (case consent p of Some c \<Rightarrow> 0 | None \<Rightarrow> 2)
      \<and> storeRejects d (p\<lparr>consent := Some (mergeConsentSpec cur body (clock k))\<rparr>) = None \<longrightarrow>
        fst (updateConsent d clock i body w) = Inr (mergeConsentSpec cur body (clock k))
        \<and> findById d i (patients (snd (updateConsent d clock i body w)))
            = Inr (Some (p\<lparr>consent := Some (mergeConsentSpec cur body (clock k)),
                            docUpdatedAt := Some (clock (k + 1))\<rparr>))
        \<and> (\<forall>oid. oid \<noteq> pid p \<longrightarrow>
              findOne oid (patients (snd (updateConsent d clock i body w))) = findOne oid (patients w))
        \<and> marketing (mergeConsentSpec cur body (clock k))
            = (case req_marketing body of Some b \<Rightarrow> b | None \<Rightarrow> marketing cur)
        \<and> reminders (mergeConsentSpec cur body (clock k))
            = (case req_reminders body of Some b \<Rightarrow> b | None \<Rightarrow> reminders cur)
        \<and> privacy (mergeConsentSpec cur body (clock k))
            = (case req_privacy body of Some b \<Rightarrow> b | None \<Rightarrow> privacy cur)
        \<and> givenAt (mergeConsentSpec cur body (clock k)) = givenAt cur
        \<and> updatedAt (mergeConsentSpec cur body (clock k)) = clock k) \<and>
   (\<forall>p g u.
      findById d i (patients w) = Inr (Some p) \<and> consent p = Some (defaultConsent g u)
      \<and> body = \<lparr>req_marketing = Some True, req_reminders = None, req_privacy = None\<rparr>
      \<and> storeRejects d (p\<lparr>consent := Some (mergeConsentSpec (defaultConsent g u) body (clock 0))\<rparr>) = None \<longrightarrow>
        fst (updateConsent d clock i body w)
          = Inr \<lparr>marketing = True, reminders = True, privacy = True, givenAt = g, updatedAt = clock 0\<rparr>)"
proof (intro conjI allI impI; (elim conjE)?)
  show "updateConsent d clock i body w = (Inl NotFoundError, w)" if "findById d i (patients w) = Inr None"
    using that by (simp add: updateConsent_def)
next
  fix m
  assume c: "findById d i (patients w) = Inl m"
  show "fst (updateConsent d clock i body w) = Inl (ServerError (''Error al actualizar consentimiento: '' @ m))"
    "patients (snd (updateConsent d clock i body w)) = patients w"
    using c by (simp_all add: updateConsent_def logTo_def)
next
  fix p cur k
  assume f: "findById d i (patients w) = Inr (Some p)"
    and c: "cur = (case consent p of Some c \<Rightarrow> c | None \<Rightarrow> defaultConsent (clock 0) (clock 1))"
    and k: "k = (case consent p of Some c \<Rightarrow> 0 | None \<Rightarrow> 2)"
    and s: "storeRejects d (p\<lparr>consent := Some (mergeConsentSpec cur body (clock k))\<rparr>) = None"
  note run = updateConsent_found[OF f c k s]
  show "fst (updateConsent d clock i body w) = Inr (mergeConsentSpec cur body (clock k))"
    unfolding run by simp
  show "findById d i (patients (snd (updateConsent d clock i body w)))
            = Inr (Some (p\<lparr>consent := Some (mergeConsentSpec cur body (clock k)),
                            docUpdatedAt := Some (clock (k + 1))\<rparr>))"
    unfolding run using findById_replace[OF f] by simp
  show "findOne oid (patients (snd (updateConsent d clock i body w))) = findOne oid (patients w)"
    if "oid \<noteq> pid p" for oid
    unfolding run using findOne_other[OF that] by simp
  show "marketing (mergeConsentSpec cur body (clock k))
            = (case req_marketing body of Some b \<Rightarrow> b | None \<Rightarrow> marketing cur)"
    "reminders (mergeConsentSpec cur body (clock k))
            = (case req_reminders body of Some b \<Rightarrow> b | None \<Rightarrow> reminders cur)"
    "privacy (mergeConsentSpec cur body (clock k))
            = (case req_privacy body of Some b \<Rightarrow> b | None \<Rightarrow> privacy cur)"
    "givenAt (mergeConsentSpec cur body (clock k)) = givenAt cur"
    "updatedAt (mergeConsentSpec cur body (clock k)) = clock k"
    by (simp_all add: mergeConsentSpec_fields)
next
  fix p g u
  assume f: "findById d i (patients w) = Inr (Some p)" and c: "consent p = Some (defaultConsent g u)"
    and b: "body = \<lparr>req_marketing = Some True, req_reminders = None, req_privacy = None\<rparr>"
    and s: "storeRejects d (p\<lparr>consent := Some (mergeConsentSpec (defaultConsent g u) body (clock 0))\<rparr>) = None"
  show "fst (updateConsent d clock i body w)
          = Inr \<lparr>marketing = True, reminders = True, privacy = True, givenAt = g, updatedAt = clock 0\<rparr>"
    using updateConsent_found[OF f, of "defaultConsent g u" clock 0 body] c s
    by (simp add: b mergeConsentSpec_fields defaultConsent_def)
qed

theorem updateConsent_merges_witness:
  "fst (updateConsent (acceptingDeps []) sampleClock anaId
          \<lparr>req_marketing = Some True, req_reminders = None, req_privacy = None\<rparr> sampleWorld)
     = Inr \<lparr>marketing = True, reminders = True, privacy = True, givenAt = 0, updatedAt = 5000\<rparr>
   \<and> fst (updateConsent (acceptingDeps []) sampleClock anaId
          \<lparr>req_marketing = None, req_reminders = Some False, req_privacy = None\<rparr>
          (sampleWorld\<lparr>patients := [samplePatient\<lparr>consent := None\<rparr>]\<rparr>))
     = Inr \<lparr>marketing = False, reminders = False, privacy = True, givenAt = 5000, updatedAt = 5002\<rparr>
   \<and> updateConsent (acceptingDeps []) sampleClock strayId
          \<lparr>req_marketing = Some True, req_reminders = None, req_privacy = None\<rparr> sampleWorld
     = (Inl NotFoundError, sampleWorld)"
  using updateConsent_merges[of "acceptingDeps []" anaId sampleWorld sampleClock
      "\<lparr>req_marketing = Some True, req_reminders = None, req_privacy = None\<rparr>"]
    updateConsent_merges[of "acceptingDeps []" anaId "sampleWorld\<lparr>patients := [samplePatient\<lparr>consent := None\<rparr>]\<rparr>"
      sampleClock "\<lparr>req_marketing = None, req_reminders = Some False, req_privacy = None\<rparr>"]
    updateConsent_merges[of "acceptingDeps []" strayId sampleWorld sampleClock
      "\<lparr>req_marketing = Some True, req_reminders = None, req_privacy = None\<rparr>"]
  by (simp add: sample_defs findById_def findOne_def mergeConsentSpec_def)

section \<open>Scheduling a vaccine\<close>

text \<open>
  C6, as the code has it. \<open>scheduleVaccine\<close> first checks the request: when name,
  date, time or location is missing it fails with \<open>ValidationError\<close>, whether the
  patient exists or not. With the four present: an \<open>:id\<close> that denotes no identifier
  is answered as a server error; an identifier no patient has gives \<open>NotFoundError\<close>;
  for an existing patient a date that denotes no date is answered as a server error
  and the stored patients stay as they were; and with a date that denotes one and a
  write the store accepts, \<open>nextVaccine\<close> becomes an event built from the request alone
  (the name trimmed, \<open>nextDoseDate\<close> absent, \<open>administered = false\<close>): no field of the
  event scheduled before remains, and nothing else of the patient and no other patient
  changes.
\<close>

theorem scheduleVaccine_overwrites:
  "(\<not> vaccineFieldsPresent body \<longrightarrow> scheduleVaccine d clock i body w = (Inl ValidationError, w)) \<and>
   (vaccineFieldsPresent body \<and> findById d i (patients w) = Inr None \<longrightarrow>
      scheduleVaccine d clock i body w = (Inl NotFoundError, w)) \<and>
   (\<forall>m. vaccineFieldsPresent body \<and> findById d i (patients w) = Inl m \<longrightarrow>
      fst (scheduleVaccine d clock i body w) = Inl (ServerError (''Error al programar vacuna: '' @ m))
      \<and> patients (snd (scheduleVaccine d clock i body w)) = patients w) \<and>
   (\<forall>p ds. vaccineFieldsPresent body \<and> findById d i (patients w) = Inr (Some p)
      \<and> req_date body = Some ds \<and> newDate d ds = None \<longrightarrow>
      fst (scheduleVaccine d clock i body w)
        = Inl (ServerError (''Error al programar vacuna: '' @ castErrorMessage d))
      \<and> patients (snd (scheduleVaccine d clock i body w)) = patients w) \<and>
   (\<forall>p nm ds tm loc t v.
      findById d i (patients w) = Inr (Some p)
      \<and> req_name body = Some nm \<and> nm \<noteq> [] \<and> req_date body = Some ds \<and> ds \<noteq> []
      \<and> req_time body = Some tm \<and> tm \<noteq> [] \<and> req_location body = Some loc \<and> loc \<noteq> []
      \<and> newDate d ds = Some t
      \<and> v = \<lparr>name = trim nm, date = t, time = tm, location = loc, vnotes = req_notes body,
              lotNumber = req_lotNumber body, nextDoseDate = None, administered = False\<rparr>
      \<and> storeRejects d (p\<lparr>nextVaccine := Some v\<rparr>) = None \<longrightarrow>
        fst (scheduleVaccine d clock i body w) = Inr (v, fullName p, petName p)
        \<and> findById d i (patients (snd (scheduleVaccine d clock i body w)))
            = Inr (Some (p\<lparr>nextVaccine := Some v, docUpdatedAt := Some (clock 0)\<rparr>))
        \<and> (\<forall>oid. oid \<noteq> pid p \<longrightarrow>
              findOne oid (patients (snd (scheduleVaccine d clock i body w))) = findOne oid (patients w)))"
proof (intro conjI allI impI; (elim conjE)?)
  show "scheduleVaccine d clock i body w = (Inl ValidationError, w)" if "\<not> vaccineFieldsPresent body"
    using that by (auto simp: scheduleVaccine_def vaccineFieldsPresent_def)
next
  show "scheduleVaccine d clock i body w = (Inl NotFoundError, w)"
    if "vaccineFieldsPresent body" "findById d i (patients w) = Inr None"
    using that by (simp add: scheduleVaccine_def vaccineFieldsPresent_def)
next
  fix m
  assume "vaccineFieldsPresent body" "findById d i (patients w) = Inl m"
  then show "fst (scheduleVaccine d clock i body w) = Inl (ServerError (''Error al programar vacuna: '' @ m))"
    "patients (snd (scheduleVaccine d clock i body w)) = patients w"
    by (simp_all add: scheduleVaccine_def vaccineFieldsPresent_def logTo_def)
next
  fix p ds
  assume pr: "vaccineFieldsPresent body" and f: "findById d i (patients w) = Inr (Some p)"
    and dt: "req_date body = Some ds" and nd: "newDate d ds = None"
  have "ds \<noteq> []" using pr dt by (auto simp: vaccineFieldsPresent_def truthy_def)
  then have oe: "orElse (Some ds) [] = ds" by (simp add: orElse_def split: list.splits)
  show "fst (scheduleVaccine d clock i body w)
        = Inl (ServerError (''Error al programar vacuna: '' @ castErrorMessage d))"
    "patients (snd (scheduleVaccine d clock i body w)) = patients w"
    using pr f dt nd oe by (simp_all add: scheduleVaccine_def vaccineFieldsPresent_def logTo_def)
next
  fix p nm ds tm loc t v
  assume f: "findById d i (patients w) = Inr (Some p)"
    and n: "req_name body = Some nm" "nm \<noteq> []" and dt: "req_date body = Some ds" "ds \<noteq> []"
    and tmm: "req_time body = Some tm" "tm \<noteq> []" and lc: "req_location body = Some loc" "loc \<noteq> []"
    and nd: "newDate d ds = Some t"
    and v: "v = \<lparr>name = trim nm, date = t, time = tm, location = loc, vnotes = req_notes body,
              lotNumber = req_lotNumber body, nextDoseDate = None, administered = False\<rparr>"
    and s: "storeRejects d (p\<lparr>nextVaccine := Some v\<rparr>) = None"
  have tr: "truthy (Some nm)" "truthy (Some ds)" "truthy (Some tm)" "truthy (Some loc)"
    using n dt tmm lc by (simp_all add: truthy_def split: list.splits)
  have oe: "orElse (Some nm) [] = nm" "orElse (Some ds) [] = ds" "orElse (Some tm) [] = tm"
    "orElse (Some loc) [] = loc"
    by (simp_all add: orElse_def split: list.splits)
  have run: "scheduleVaccine d clock i body w =
      (Inr (v, fullName p, petName p),
       w\<lparr>patients := map (\<lambda>q. if pid q = pid p then p\<lparr>nextVaccine := Some v, docUpdatedAt := Some (clock 0)\<rparr> else q)
            (patients w)\<rparr>)"
    using f n dt tmm lc nd s tr oe
    by (simp add: scheduleVaccine_def saveExisting_accepts v Let_def)
  show "fst (scheduleVaccine d clock i body w) = Inr (v, fullName p, petName p)"
    unfolding run by simp
  show "findById d i (patients (snd (scheduleVaccine d clock i body w)))
            = Inr (Some (p\<lparr>nextVaccine := Some v, docUpdatedAt := Some (clock 0)\<rparr>))"
    unfolding run using findById_replace[OF f] by simp
  show "findOne oid (patients (snd (scheduleVaccine d clock i body w))) = findOne oid (patients w)"
    if "oid \<noteq> pid p" for oid
    unfolding run using findOne_other[OF that] by simp
qed

theorem scheduleVaccine_overwrites_witness:
  "map_option nextVaccine (storedPatient (acceptingDeps []) anaId
      (snd (scheduleVaccine (acceptingDeps []) sampleClock anaId
              (sampleVaccineBody ''1970-01-21'' (Some ''09:00'')) sampleWorld)))
   = Some (Some \<lparr>name = ''Moquillo'', date = 20 * msPerDay, time = ''09:00'', location = ''Sala 1'',
                 vnotes = None, lotNumber = None, nextDoseDate = None, administered = False\<rparr>)
   \<and> scheduleVaccine (acceptingDeps []) sampleClock anaId (sampleVaccineBody ''1970-01-21'' None) sampleWorld
     = (Inl ValidationError, sampleWorld)
   \<and> scheduleVaccine (acceptingDeps []) sampleClock strayId
        (sampleVaccineBody ''1970-01-21'' (Some ''09:00'')) sampleWorld
     = (Inl NotFoundError, sampleWorld)"
  using scheduleVaccine_overwrites[of "sampleVaccineBody ''1970-01-21'' (Some ''09:00'')" "acceptingDeps []"
      sampleClock anaId sampleWorld]
    scheduleVaccine_overwrites[of "sampleVaccineBody ''1970-01-21'' None" "acceptingDeps []"
      sampleClock anaId sampleWorld]
    scheduleVaccine_overwrites[of "sampleVaccineBody ''1970-01-21'' (Some ''09:00'')" "acceptingDeps []"
      sampleClock strayId sampleWorld]
  by (simp add: sample_defs sampleVaccineBody_def findById_def findOne_def storedPatient_def
      vaccineFieldsPresent_def truthy_def trim_samples)

text \<open>
  C6 as stated fails. For the sample patient, a request with all four fields whose
  date is the string \<open>pronto\<close> is answered as a server error and the vaccine scheduled
  before stays. For an identifier no patient has, a request without a time fails with
  \<open>ValidationError\<close>, not \<open>NotFoundError\<close>. For the string \<open>abc\<close>, which denotes no
  patient, a complete request is answered as a server error, not \<open>NotFoundError\<close>.
\<close>

theorem scheduleVaccine_counterexample:
  "vaccineFieldsPresent (sampleVaccineBody ''pronto'' (Some ''09:00''))
   \<and> fst (scheduleVaccine (acceptingDeps []) sampleClock anaId
            (sampleVaccineBody ''pronto'' (Some ''09:00'')) sampleWorld)
       = Inl (ServerError ''Error al programar vacuna: Cast to date failed'')
   \<and> map nextVaccine (patients (snd (scheduleVaccine (acceptingDeps []) sampleClock anaId
            (sampleVaccineBody ''pronto'' (Some ''09:00'')) sampleWorld)))
       = [Some sampleVaccine]
   \<and> findById (acceptingDeps []) strayId (patients sampleWorld) = Inr None
   \<and> fst (scheduleVaccine (acceptingDeps []) sampleClock strayId
            (sampleVaccineBody ''1970-01-21'' None) sampleWorld)
       = Inl ValidationError
   \<and> fst (scheduleVaccine (acceptingDeps []) sampleClock ''abc''
            (sampleVaccineBody ''1970-01-21'' (Some ''09:00'')) sampleWorld)
       = Inl (ServerError (''Error al programar vacuna: Cast to ObjectId failed for value ''
                           @ [CHR 0x22] @ ''abc'' @ [CHR 0x22]))"
  by (simp add: sample_defs sampleVaccineBody_def scheduleVaccine_def findById_def findOne_def
      vaccineFieldsPresent_def truthy_def orElse_def logTo_def Let_def)

section \<open>Registering a patient\<close>










end
